theory Spec2Isabelle
  imports Complex_Main
begin

section \<open>JavaScript values\<close>

text \<open>
  The registration form of \<^verbatim>\<open>src/App.tsx\<close> is a zod schema (\<^verbatim>\<open>formSchema\<close>) and two
  file-input handlers. The schema is declarative: what it computes is fixed by the zod 3
  combinators it is built from, so each combinator used is embedded once, with zod's
  parse statuses (valid, dirty, aborted), and the schema is then written with them in
  the order of the source.

  A JavaScript number is an IEEE double. Every finite double is a rational number and
  the source only compares numbers (\<^verbatim>\<open><\<close>, \<^verbatim>\<open>>\<close>, \<^verbatim>\<open>!==\<close>), so a finite number is modelled by
  its exact value; \<open>NaN\<close> and the two infinities are separate values.
\<close>

datatype number = Fin rat | NaN | PosInf | NegInf

text \<open>\<^verbatim>\<open>a < b\<close> and \<^verbatim>\<open>a !== b\<close> on numbers: every comparison with \<open>NaN\<close> is false,
  so \<open>NaN !== x\<close> is true.\<close>

fun number_less :: "number \<Rightarrow> number \<Rightarrow> bool" where
  "number_less NaN _ = False"
| "number_less _ NaN = False"
| "number_less (Fin a) (Fin b) = (a < b)"
| "number_less (Fin _) PosInf = True"
| "number_less (Fin _) NegInf = False"
| "number_less PosInf _ = False"
| "number_less NegInf NegInf = False"
| "number_less NegInf _ = True"

fun strict_neq :: "number \<Rightarrow> number \<Rightarrow> bool" where
  "strict_neq NaN _ = True"
| "strict_neq _ NaN = True"
| "strict_neq a b = (a \<noteq> b)"

fun Math_floor :: "number \<Rightarrow> number" where
  "Math_floor (Fin r) = Fin (of_int \<lfloor>r\<rfloor>)"
| "Math_floor x = x"

fun isInteger :: "number \<Rightarrow> bool" where
  "isInteger (Fin r) = (of_int \<lfloor>r\<rfloor> = r)"
| "isInteger _ = False"

text \<open>A \<^verbatim>\<open>File\<close> of the browser, with the two attributes the source reads.\<close>

record File =
  file_name :: string
  file_type :: string
  file_size :: nat

text \<open>
  The values a field of the draft can hold. A \<^verbatim>\<open>Date\<close> carries a time value in
  milliseconds, or none when it is an Invalid Date (\<^verbatim>\<open>getTime()\<close> is \<open>NaN\<close>). Strings
  are lists of characters; the model is exact on ASCII strings.
\<close>

datatype jsval =
    JUndefined
  | JNull
  | JBoolean bool
  | JNumber number
  | JString string
  | JDate "int option"
  | JFile File
  | JArray "jsval list"
  | JObject

text \<open>An object read by key: a missing key reads as \<^verbatim>\<open>undefined\<close>.\<close>

type_synonym object = "string \<Rightarrow> jsval"

fun startsWith :: "string \<Rightarrow> string \<Rightarrow> bool" where
  "startsWith s [] = True"
| "startsWith [] (p # ps) = False"
| "startsWith (c # cs) (p # ps) = (c = p \<and> startsWith cs ps)"

fun indexOf_from :: "string \<Rightarrow> string \<Rightarrow> int \<Rightarrow> int" where
  "indexOf_from [] sub i = (if sub = [] then i else - 1)"
| "indexOf_from (c # cs) sub i =
     (if startsWith (c # cs) sub then i else indexOf_from cs sub (i + 1))"

definition indexOf :: "string \<Rightarrow> string \<Rightarrow> int" where
  "indexOf s sub = indexOf_from s sub 0"

text \<open>\<^verbatim>\<open>toLowerCase\<close> on ASCII letters; the lower-casing of other letters, which
  JavaScript also does, is not modelled.\<close>

definition lower_char :: "char \<Rightarrow> char" where
  "lower_char c =
     (case map_of (zip ''ABCDEFGHIJKLMNOPQRSTUVWXYZ'' ''abcdefghijklmnopqrstuvwxyz'') c of
        Some l \<Rightarrow> l
      | None \<Rightarrow> c)"

definition toLowerCase :: "string \<Rightarrow> string" where
  "toLowerCase s = map lower_char s"

section \<open>Regular expressions\<close>

text \<open>
  \<^verbatim>\<open>phoneRegex\<close> is anchored at both ends and has no back-references, so
  \<^verbatim>\<open>regex.test(s)\<close> is membership of the whole string in a regular language, decided
  here by derivatives.
\<close>

datatype regex =
    Fail
  | Eps
  | Class "char list"
  | Seq regex regex
  | Alt regex regex
  | Star regex

definition Opt :: "regex \<Rightarrow> regex" where
  "Opt r = Alt r Eps"

definition Plus :: "regex \<Rightarrow> regex" where
  "Plus r = Seq r (Star r)"

fun accepts_empty :: "regex \<Rightarrow> bool" where
  "accepts_empty Fail = False"
| "accepts_empty Eps = True"
| "accepts_empty (Class cs) = False"
| "accepts_empty (Seq r s) = (accepts_empty r \<and> accepts_empty s)"
| "accepts_empty (Alt r s) = (accepts_empty r \<or> accepts_empty s)"
| "accepts_empty (Star r) = True"

fun after_char :: "char \<Rightarrow> regex \<Rightarrow> regex" where
  "after_char c Fail = Fail"
| "after_char c Eps = Fail"
| "after_char c (Class cs) = (if c \<in> set cs then Eps else Fail)"
| "after_char c (Seq r s) =
     (if accepts_empty r then Alt (Seq (after_char c r) s) (after_char c s)
      else Seq (after_char c r) s)"
| "after_char c (Alt r s) = Alt (after_char c r) (after_char c s)"
| "after_char c (Star r) = Seq (after_char c r) (Star r)"

fun regex_test :: "regex \<Rightarrow> string \<Rightarrow> bool" where
  "regex_test r [] = accepts_empty r"
| "regex_test r (c # cs) = regex_test (after_char c r) cs"

definition digit :: regex where
  "digit = Class ''0123456789''"

text \<open>The ASCII characters that \<^verbatim>\<open>\s\<close> matches; it also matches the no-break space
  and other Unicode spaces, which are not modelled.\<close>

definition whitespace :: "char list" where
  "whitespace = [CHR '' '', CHR 0x09, CHR 0x0A, CHR 0x0B, CHR 0x0C, CHR 0x0D]"

text \<open>\<^verbatim>\<open>/^([+]?[\s0-9]+)?(\d{3}|[(]?[0-9]+[)])?([-]?[\s]?[0-9])+$/\<close>\<close>

definition phoneRegex :: regex where
  "phoneRegex =
     Seq (Opt (Seq (Opt (Class ''+'')) (Plus (Class (whitespace @ ''0123456789'')))))
       (Seq (Opt (Alt (Seq digit (Seq digit digit))
                      (Seq (Opt (Class ''('')) (Seq (Plus digit) (Class '')'')))))
            (Plus (Seq (Opt (Class ''-'')) (Seq (Opt (Class whitespace)) digit))))"

section \<open>The zod combinators the schema uses\<close>

text \<open>
  A parse adds issues to the context and returns \<open>INVALID\<close> (status aborted) or a value
  with status dirty or valid. An issue carries its code, the path of the value it is
  about and its message.
\<close>

datatype issue_code =
    invalid_type
  | invalid_literal
  | invalid_union
  | invalid_string
  | invalid_date
  | too_small
  | too_big
  | custom

datatype key = Key string | Index nat

record issue =
  code :: issue_code
  path :: "key list"
  message :: string

datatype 'a outcome = INVALID | DIRTY 'a | OK 'a

type_synonym 'a parse = "issue list \<times> 'a outcome"

type_synonym 'a schema = "jsval \<Rightarrow> 'a parse"

definition mk_issue :: "issue_code \<Rightarrow> string \<Rightarrow> issue" where
  "mk_issue c m = \<lparr>code = c, path = [], message = m\<rparr>"

text \<open>\<^verbatim>\<open>safeParse(...).success\<close>: only the status valid is a success.\<close>

fun success :: "'a parse \<Rightarrow> bool" where
  "success (is, OK x) = True"
| "success (is, r) = False"

text \<open>zod's \<^verbatim>\<open>getParsedType\<close>, and the default message of an \<open>invalid_type\<close> issue.\<close>

fun getParsedType :: "jsval \<Rightarrow> string" where
  "getParsedType JUndefined = ''undefined''"
| "getParsedType JNull = ''null''"
| "getParsedType (JBoolean b) = ''boolean''"
| "getParsedType (JNumber n) = (if n = NaN then ''nan'' else ''number'')"
| "getParsedType (JString s) = ''string''"
| "getParsedType (JDate d) = ''date''"
| "getParsedType (JFile f) = ''object''"
| "getParsedType (JArray xs) = ''array''"
| "getParsedType JObject = ''object''"

definition invalid_type_issue :: "string \<Rightarrow> jsval \<Rightarrow> issue" where
  "invalid_type_issue expected v =
     mk_issue invalid_type
       (if v = JUndefined then ''Required''
        else ''Expected '' @ expected @ '', received '' @ getParsedType v)"

definition z_string :: "string schema" where
  "z_string v =
     (case v of JString s \<Rightarrow> ([], OK s) | _ \<Rightarrow> ([invalid_type_issue ''string'' v], INVALID))"

definition z_number :: "number schema" where
  "z_number v =
     (case v of
        JNumber n \<Rightarrow>
          if n = NaN then ([invalid_type_issue ''number'' v], INVALID) else ([], OK n)
      | _ \<Rightarrow> ([invalid_type_issue ''number'' v], INVALID))"

text \<open>\<^verbatim>\<open>z.date()\<close> returns the time value of a valid date and aborts on an Invalid Date.\<close>

definition z_date :: "int schema" where
  "z_date v =
     (case v of
        JDate (Some t) \<Rightarrow> ([], OK t)
      | JDate None \<Rightarrow> ([mk_issue invalid_date ''Invalid date''], INVALID)
      | _ \<Rightarrow> ([invalid_type_issue ''date'' v], INVALID))"

text \<open>\<^verbatim>\<open>z.instanceof(File, {message})\<close>: a custom check whose issue is fatal.\<close>

definition z_instanceof_File :: "string \<Rightarrow> File schema" where
  "z_instanceof_File m v =
     (case v of JFile f \<Rightarrow> ([], OK f) | _ \<Rightarrow> ([mk_issue custom m], INVALID))"

definition z_literal :: "string \<Rightarrow> string schema" where
  "z_literal l v =
     (if v = JString l then ([], OK l)
      else ([mk_issue invalid_literal (''Invalid literal value, expected \"'' @ l @ ''\"'')],
            INVALID))"

text \<open>
  A check of a value that was not aborted: a failing check adds its issue after the
  issues already there and makes the status dirty; the value is returned either way.
  The checks of a string, number or date schema and \<^verbatim>\<open>.refine\<close> all work this way.
\<close>

definition z_check :: "('a \<Rightarrow> bool) \<Rightarrow> issue \<Rightarrow> 'a schema \<Rightarrow> 'a schema" where
  "z_check p i sch v =
     (case sch v of
        (is, INVALID) \<Rightarrow> (is, INVALID)
      | (is, DIRTY x) \<Rightarrow> (if p x then (is, DIRTY x) else (is @ [i], DIRTY x))
      | (is, OK x) \<Rightarrow> (if p x then (is, OK x) else (is @ [i], DIRTY x)))"

definition z_refine :: "('a \<Rightarrow> bool) \<Rightarrow> string \<Rightarrow> 'a schema \<Rightarrow> 'a schema" where
  "z_refine p m = z_check p (mk_issue custom m)"

definition z_min_length :: "nat \<Rightarrow> string \<Rightarrow> string schema \<Rightarrow> string schema" where
  "z_min_length n m = z_check (\<lambda>s. \<not> length s < n) (mk_issue too_small m)"

definition z_regex :: "regex \<Rightarrow> string \<Rightarrow> string schema \<Rightarrow> string schema" where
  "z_regex r m = z_check (regex_test r) (mk_issue invalid_string m)"

definition z_min :: "number \<Rightarrow> string \<Rightarrow> number schema \<Rightarrow> number schema" where
  "z_min n m = z_check (\<lambda>x. \<not> number_less x n) (mk_issue too_small m)"

definition z_max_date :: "int \<Rightarrow> string \<Rightarrow> int schema \<Rightarrow> int schema" where
  "z_max_date d m = z_check (\<lambda>t. \<not> t > d) (mk_issue too_big m)"

definition z_toLowerCase :: "string schema \<Rightarrow> string schema" where
  "z_toLowerCase sch v =
     (case sch v of
        (is, INVALID) \<Rightarrow> (is, INVALID)
      | (is, DIRTY s) \<Rightarrow> (is, DIRTY (toLowerCase s))
      | (is, OK s) \<Rightarrow> (is, OK (toLowerCase s)))"

definition z_optional :: "'a schema \<Rightarrow> 'a option schema" where
  "z_optional sch v =
     (if v = JUndefined then ([], OK None)
      else case sch v of
             (is, INVALID) \<Rightarrow> (is, INVALID)
           | (is, DIRTY x) \<Rightarrow> (is, DIRTY (Some x))
           | (is, OK x) \<Rightarrow> (is, OK (Some x)))"

text \<open>
  \<^verbatim>\<open>a.or(b)\<close>: the first option that is valid wins; failing that the first dirty option,
  with its issues; when both abort, one \<open>invalid_union\<close> issue and \<open>INVALID\<close>.
\<close>

definition z_or :: "'a schema \<Rightarrow> 'b schema \<Rightarrow> ('a + 'b) schema" where
  "z_or a b v =
     (case a v of (is1, r1) \<Rightarrow>
      case b v of (is2, r2) \<Rightarrow>
        (case r1 of
           OK x \<Rightarrow> ([], OK (Inl x))
         | _ \<Rightarrow>
           (case r2 of
              OK y \<Rightarrow> ([], OK (Inr y))
            | _ \<Rightarrow>
              (case r1 of
                 DIRTY x \<Rightarrow> (is1, DIRTY (Inl x))
               | _ \<Rightarrow>
                 (case r2 of
                    DIRTY y \<Rightarrow> (is2, DIRTY (Inr y))
                  | _ \<Rightarrow> ([mk_issue invalid_union ''Invalid input''], INVALID))))))"

text \<open>The issues of a value parsed under a key or an index have that key in front of
  their path.\<close>

definition under :: "key \<Rightarrow> 'a parse \<Rightarrow> 'a parse" where
  "under k p = (map (\<lambda>i. i\<lparr>path := k # path i\<rparr>) (fst p), snd p)"

text \<open>
  Merging the results of the elements of an array or of the keys of an object
  (\<^verbatim>\<open>mergeArray\<close>, \<^verbatim>\<open>mergeObjectSync\<close>): one aborted part aborts the whole, one dirty
  part makes it dirty.
\<close>

fun merge :: "('a \<Rightarrow> 'b) outcome \<Rightarrow> 'a outcome \<Rightarrow> 'b outcome" where
  "merge INVALID r = INVALID"
| "merge f INVALID = INVALID"
| "merge (OK f) (OK x) = OK (f x)"
| "merge (OK f) (DIRTY x) = DIRTY (f x)"
| "merge (DIRTY f) (OK x) = DIRTY (f x)"
| "merge (DIRTY f) (DIRTY x) = DIRTY (f x)"

fun parse_items :: "'a schema \<Rightarrow> nat \<Rightarrow> jsval list \<Rightarrow> 'a list parse" where
  "parse_items sch i [] = ([], OK [])"
| "parse_items sch i (x # xs) =
     (case under (Index i) (sch x) of (is, r) \<Rightarrow>
      case parse_items sch (Suc i) xs of (js, rs) \<Rightarrow>
        (is @ js, merge (merge (OK (#)) r) rs))"

text \<open>
  \<^verbatim>\<open>z.array(element).max(n, {message})\<close>: the length is checked first, then every
  element is parsed, whatever the length check said.
\<close>

definition z_array_max :: "'a schema \<Rightarrow> nat \<Rightarrow> string \<Rightarrow> 'a list schema" where
  "z_array_max sch n m v =
     (case v of
        JArray xs \<Rightarrow>
          (case parse_items sch 0 xs of (js, rs) \<Rightarrow>
             if length xs > n then (mk_issue too_big m # js, merge (DIRTY id) rs)
             else (js, rs))
      | _ \<Rightarrow> ([invalid_type_issue ''array'' v], INVALID))"

section \<open>The form schema\<close>

text \<open>
  \<^verbatim>\<open>Date.now()\<close> is read at two moments: once when the module is loaded and
  \<^verbatim>\<open>formSchema\<close> is built (the bound of \<^verbatim>\<open>dateOfBirth\<close>, line 24), and at every
  validation (the cross-field check, line 54). They are the parameters \<open>created\<close> and
  \<open>now\<close>, in milliseconds.
\<close>

definition name_schema :: "string schema" where
  "name_schema = z_min_length 1 ''Required'' z_string"

definition age_schema :: "number schema" where
  "age_schema = z_min (Fin 10) ''Must be at least 10 years old'' z_number"

definition phone_schema :: "(string option + string) schema" where
  "phone_schema = z_or (z_optional (z_regex phoneRegex ''Invalid'' z_string)) (z_literal [])"

definition website_schema :: "(string option + string) schema" where
  "website_schema =
     z_or
       (z_optional
          (z_refine (\<lambda>v. indexOf v ''.'' \<noteq> - 1) ''Invalid''
             (z_min_length 5 ''Must be a minimum of 5 characters''
                (z_toLowerCase z_string))))
       (z_literal [])"

text \<open>The bound of \<^verbatim>\<open>dateOfBirth\<close> is a date computed from the clock when the schema
  is built; for a clock in the range of \<^verbatim>\<open>Date\<close> that is not within ten years of its
  lower end, it is a valid date, as the model takes it to be.\<close>

definition dateOfBirth_schema :: "int \<Rightarrow> int schema" where
  "dateOfBirth_schema created =
     z_max_date (created - 10 * 365 * 24 * 60 * 60 * 1000) ''Must be at least 10 years old''
       z_date"

definition avatar_schema :: "File schema" where
  "avatar_schema =
     z_refine (\<lambda>f. file_size f \<le> 5 * 1024 * 1024) ''Image size must be less than 5MB''
       (z_refine (\<lambda>f. startsWith (file_type f) ''image/'') ''Invalid file type''
          (z_instanceof_File ''Required''))"

definition picture_schema :: "File schema" where
  "picture_schema =
     z_refine (\<lambda>f. file_size f \<le> 50 * 1024 * 1024) ''Image size must be less than 50MB''
       (z_refine (\<lambda>f. startsWith (file_type f) ''image/'') ''Invalid file type''
          (z_instanceof_File ''Input not instance of File''))"

definition additionalPictures_schema :: "File list option schema" where
  "additionalPictures_schema =
     z_optional (z_array_max picture_schema 5 ''Maximum 5 images allowed'')"

text \<open>The parsed draft, \<^verbatim>\<open>FormValues = z.infer<typeof formSchema>\<close>; a date is its time
  value.\<close>

record FormValues =
  name :: string
  age :: number
  phone :: "string option + string"
  website :: "string option + string"
  dateOfBirth :: int
  avatar :: File
  additionalPictures :: "File list option"

text \<open>
  \<^verbatim>\<open>z.object({...})\<close> parses every key of the shape in order, each under its key, and
  merges the results. The draft that the form library hands over is always an object.
\<close>

definition object_schema :: "int \<Rightarrow> object \<Rightarrow> FormValues parse" where
  "object_schema created data =
     (case under (Key ''name'') (name_schema (data ''name'')) of (i1, r1) \<Rightarrow>
      case under (Key ''age'') (age_schema (data ''age'')) of (i2, r2) \<Rightarrow>
      case under (Key ''phone'') (phone_schema (data ''phone'')) of (i3, r3) \<Rightarrow>
      case under (Key ''website'') (website_schema (data ''website'')) of (i4, r4) \<Rightarrow>
      case under (Key ''dateOfBirth'') (dateOfBirth_schema created (data ''dateOfBirth''))
        of (i5, r5) \<Rightarrow>
      case under (Key ''avatar'') (avatar_schema (data ''avatar'')) of (i6, r6) \<Rightarrow>
      case under (Key ''additionalPictures'')
             (additionalPictures_schema (data ''additionalPictures'')) of (i7, r7) \<Rightarrow>
        (i1 @ i2 @ i3 @ i4 @ i5 @ i6 @ i7,
         merge (merge (merge (merge (merge (merge (merge
           (OK (\<lambda>n a p w d v ps.
                  \<lparr>name = n, age = a, phone = p, website = w, dateOfBirth = d, avatar = v,
                   additionalPictures = ps\<rparr>))
           r1) r2) r3) r4) r5) r6) r7))"

text \<open>
  The callback of \<^verbatim>\<open>.superRefine\<close> (lines 49 to 66). It receives a parsed object, whose
  \<open>age\<close> is a number and whose \<open>dateOfBirth\<close> is a valid date, so the guard of line 52
  (neither is \<^verbatim>\<open>undefined\<close>) holds at every call and the model has no branch for it.
  Time values are integers of at most 8640000000000000 in absolute value, the range
  of \<^verbatim>\<open>Date\<close>. The source subtracts and divides doubles and then takes
  \<^verbatim>\<open>Math.floor\<close>; the model takes the floor of the exact quotient. The two agree as
  long as the difference of the two time values is below \<open>2 ^ 53\<close> in absolute value:
  the subtraction is then exact, and the division by the length of a year (365 days)
  rounds by less than the distance of a quotient that is not an integer from the next
  integer. Two time values in the range of \<^verbatim>\<open>Date\<close> can be further apart than that
  (up to 17280000000000000); the double subtraction then rounds and the floor of the
  source can be one more or less than the exact one. What is proved of the value of
  the floor therefore assumes a difference below \<open>2 ^ 53\<close>.
\<close>

definition calculatedAge :: "int \<Rightarrow> int \<Rightarrow> number" where
  "calculatedAge now t =
     Math_floor (Fin ((of_int now - of_int t) / (1000 * 60 * 60 * 24 * 365)))"

definition age_issue :: issue where
  "age_issue = \<lparr>code = custom, path = [Key ''age''], message = ''Age must match date of birth''\<rparr>"

definition superRefine :: "int \<Rightarrow> FormValues \<Rightarrow> issue list" where
  "superRefine now values =
     (if strict_neq (age values) (calculatedAge now (dateOfBirth values)) then [age_issue]
      else [])"

text \<open>
  \<^verbatim>\<open>schema.superRefine(callback)\<close>: the callback does not run when the schema aborted;
  otherwise it runs on the parsed value, and an issue it adds makes the status dirty.
\<close>

definition z_superRefine :: "('a \<Rightarrow> issue list) \<Rightarrow> 'a parse \<Rightarrow> 'a parse" where
  "z_superRefine callback p =
     (case p of
        (is, INVALID) \<Rightarrow> (is, INVALID)
      | (is, DIRTY x) \<Rightarrow> (is @ callback x, DIRTY x)
      | (is, OK x) \<Rightarrow> (is @ callback x, if callback x = [] then OK x else DIRTY x))"

definition formSchema :: "int \<Rightarrow> int \<Rightarrow> object \<Rightarrow> FormValues parse" where
  "formSchema created now data = z_superRefine (superRefine now) (object_schema created data)"

section \<open>The file inputs\<close>

text \<open>
  The state the two \<^verbatim>\<open>onChange\<close> handlers act on: the values held by the form library,
  the two preview states of the component, and the browser's table of object URLs. An
  object URL is the index of its file in that table.
\<close>

datatype url = Blob nat

record ui_state =
  formValues :: object
  avatarPreview :: "url option"
  additionalPicturesPreviews :: "url list option"
  objectURLs :: "File list"

datatype js_error = TypeError

datatype handler_result = Returned ui_state | Threw js_error ui_state

definition onChange :: "string \<Rightarrow> jsval \<Rightarrow> ui_state \<Rightarrow> ui_state" where
  "onChange field v s = s\<lparr>formValues := (formValues s)(field := v)\<rparr>"

definition createObjectURL :: "File \<Rightarrow> ui_state \<Rightarrow> url \<times> ui_state" where
  "createObjectURL f s = (Blob (length (objectURLs s)), s\<lparr>objectURLs := objectURLs s @ [f]\<rparr>)"

fun createObjectURLs :: "File list \<Rightarrow> ui_state \<Rightarrow> url list \<times> ui_state" where
  "createObjectURLs [] s = ([], s)"
| "createObjectURLs (f # fs) s =
     (case createObjectURL f s of (u, s1) \<Rightarrow>
      case createObjectURLs fs s1 of (us, s2) \<Rightarrow> (u # us, s2))"

text \<open>
  The avatar handler (lines 116 to 122). \<^verbatim>\<open>e.target.files\<close> is \<^verbatim>\<open>null\<close> or a list of
  files; \<^verbatim>\<open>files[0]\<close> of an empty list is \<^verbatim>\<open>undefined\<close>, and reading \<^verbatim>\<open>.type\<close> of
  \<^verbatim>\<open>undefined\<close> throws a \<^verbatim>\<open>TypeError\<close>, after \<^verbatim>\<open>onChange\<close> has run.
\<close>

definition avatar_onChange :: "File list option \<Rightarrow> ui_state \<Rightarrow> handler_result" where
  "avatar_onChange files s =
     (case files of
        None \<Rightarrow> Returned s
      | Some fs \<Rightarrow>
          (let file = (case fs of [] \<Rightarrow> None | f # rest \<Rightarrow> Some f);
               s1 = onChange ''avatar'' (case file of None \<Rightarrow> JUndefined | Some f \<Rightarrow> JFile f) s
           in case file of
                None \<Rightarrow> Threw TypeError s1
              | Some f \<Rightarrow>
                  if \<not> startsWith (file_type f) ''image/'' then Returned s1
                  else (case createObjectURL f s1 of (u, s2) \<Rightarrow>
                          Returned (s2\<lparr>avatarPreview := Some u\<rparr>))))"

text \<open>The handler of the additional pictures (lines 138 to 148).\<close>

definition additionalPictures_onChange :: "File list option \<Rightarrow> ui_state \<Rightarrow> handler_result" where
  "additionalPictures_onChange files s =
     (case files of
        None \<Rightarrow> Returned s
      | Some fs \<Rightarrow>
          (let s1 = onChange ''additionalPictures'' (JArray (map JFile fs)) s
           in if \<not> list_all (\<lambda>f. startsWith (file_type f) ''image/'') fs then Returned s1
              else if length fs \<noteq> 0
                then (case createObjectURLs fs s1 of (us, s2) \<Rightarrow>
                        Returned (s2\<lparr>additionalPicturesPreviews := Some us\<rparr>))
                else Returned (s1\<lparr>additionalPicturesPreviews := None\<rparr>)))"

section \<open>Auxiliary definitions\<close>

text \<open>The value a parse returned, if it was not aborted.\<close>

fun value_of :: "'a outcome \<Rightarrow> 'a option" where
  "value_of INVALID = None"
| "value_of (DIRTY x) = Some x"
| "value_of (OK x) = Some x"

text \<open>
  A draft and a state of the component on which the schema and the handlers are run:
  a name, the age 20, the date of birth at time 0, and a small PNG image as avatar; the
  other keys are missing.
\<close>

definition example_file :: File where
  "example_file = \<lparr>file_name = ''a.png'', file_type = ''image/png'', file_size = 100\<rparr>"

definition example_draft :: object where
  "example_draft =
     (\<lambda>k. JUndefined)
       (''name'' := JString ''Ann'',
        ''age'' := JNumber (Fin 20),
        ''dateOfBirth'' := JDate (Some 0),
        ''avatar'' := JFile example_file)"

definition example_values :: FormValues where
  "example_values =
     \<lparr>name = ''Ann'', age = Fin 20, phone = Inl None, website = Inl None, dateOfBirth = 0,
      avatar = example_file, additionalPictures = None\<rparr>"

definition example_state :: ui_state where
  "example_state =
     \<lparr>formValues = example_draft, avatarPreview = Some (Blob 0),
      additionalPicturesPreviews = None, objectURLs = [example_file]\<rparr>"

section \<open>Properties of the combinators\<close>

lemmas schema_defs =
  name_schema_def age_schema_def phone_schema_def website_schema_def dateOfBirth_schema_def
  avatar_schema_def additionalPictures_schema_def picture_schema_def
  z_string_def z_number_def z_date_def z_instanceof_File_def z_literal_def z_check_def
  z_refine_def z_min_length_def z_regex_def z_min_def z_max_date_def z_toLowerCase_def
  z_optional_def z_or_def z_array_max_def under_def mk_issue_def invalid_type_issue_def

lemma merge_INVALID_iff: "merge f r = INVALID \<longleftrightarrow> f = INVALID \<or> r = INVALID"
  by (cases f; cases r) simp_all

lemma merge_OK_iff: "merge f r = OK y \<longleftrightarrow> (\<exists>g x. f = OK g \<and> r = OK x \<and> y = g x)"
  by (cases f; cases r) auto

lemma value_of_merge:
  "value_of (merge f r) =
     (case value_of f of None \<Rightarrow> None | Some g \<Rightarrow> map_option g (value_of r))"
  by (cases f; cases r) simp_all

lemma value_of_None: "value_of r = None \<longleftrightarrow> r = INVALID"
  by (cases r) simp_all

lemma under_simps [simp]:
  "fst (under k p) = map (\<lambda>i. i\<lparr>path := k # path i\<rparr>) (fst p)"
  "snd (under k p) = snd p"
  by (simp_all add: under_def)

lemma z_check_value: "value_of (snd (z_check p i sch v)) = value_of (snd (sch v))"
  by (simp add: z_check_def split: prod.splits outcome.splits)

lemma z_check_INVALID: "snd (z_check p i sch v) = INVALID \<longleftrightarrow> snd (sch v) = INVALID"
  by (simp add: z_check_def split: prod.splits outcome.splits)

lemma z_superRefine_issues:
  "fst (z_superRefine callback p) =
     fst p @ (case value_of (snd p) of None \<Rightarrow> [] | Some x \<Rightarrow> callback x)"
  by (cases p; cases "snd p") (simp_all add: z_superRefine_def)

lemma z_superRefine_success:
  "success (z_superRefine callback p) \<longleftrightarrow> (\<exists>x. snd p = OK x \<and> callback x = [])"
  by (cases p; cases "snd p") (simp_all add: z_superRefine_def)

lemma z_superRefine_INVALID: "snd p = INVALID \<Longrightarrow> z_superRefine callback p = p"
  by (cases p) (simp add: z_superRefine_def)

lemma strict_neq_Fin: "a \<noteq> NaN \<Longrightarrow> strict_neq a (Fin r) \<longleftrightarrow> a \<noteq> Fin r"
  by (cases a) simp_all

text \<open>The floor of the quotient of two time differences is integer division.\<close>

lemma calculatedAge_div:
  "calculatedAge now t = Fin (of_int ((now - t) div (1000 * 60 * 60 * 24 * 365)))"
proof -
  have "\<lfloor>(of_int now - of_int t) / (31536000000::rat)\<rfloor> = (now - t) div 31536000000"
    using floor_divide_of_int_eq [of "now - t" 31536000000, where ?'a = rat] by simp
  then show ?thesis by (simp add: calculatedAge_def)
qed

section \<open>The object schema\<close>

lemma object_schema_issues:
  "fst (object_schema created data) =
     fst (under (Key ''name'') (name_schema (data ''name''))) @
     fst (under (Key ''age'') (age_schema (data ''age''))) @
     fst (under (Key ''phone'') (phone_schema (data ''phone''))) @
     fst (under (Key ''website'') (website_schema (data ''website''))) @
     fst (under (Key ''dateOfBirth'') (dateOfBirth_schema created (data ''dateOfBirth''))) @
     fst (under (Key ''avatar'') (avatar_schema (data ''avatar''))) @
     fst (under (Key ''additionalPictures'')
            (additionalPictures_schema (data ''additionalPictures'')))"
  by (simp add: object_schema_def case_prod_beta)

lemma object_schema_result:
  "snd (object_schema created data) =
     merge (merge (merge (merge (merge (merge (merge
           (OK (\<lambda>n a p w d v ps.
                  \<lparr>name = n, age = a, phone = p, website = w, dateOfBirth = d, avatar = v,
                   additionalPictures = ps\<rparr>))
           (snd (name_schema (data ''name''))))
           (snd (age_schema (data ''age''))))
           (snd (phone_schema (data ''phone''))))
           (snd (website_schema (data ''website''))))
           (snd (dateOfBirth_schema created (data ''dateOfBirth''))))
           (snd (avatar_schema (data ''avatar''))))
           (snd (additionalPictures_schema (data ''additionalPictures'')))"
  by (simp add: object_schema_def case_prod_beta)

lemma object_schema_value:
  assumes "value_of (snd (object_schema created data)) = Some v"
  shows "value_of (snd (age_schema (data ''age''))) = Some (age v) \<and>
         value_of (snd (dateOfBirth_schema created (data ''dateOfBirth''))) =
           Some (dateOfBirth v)"
  using assms unfolding object_schema_result value_of_merge
  by (auto split: option.splits)

lemma age_schema_value:
  "value_of (snd (age_schema x)) = Some a \<Longrightarrow> x = JNumber a \<and> a \<noteq> NaN"
  by (auto simp: age_schema_def z_min_def z_check_value z_number_def
      split: jsval.splits if_splits)

lemma dateOfBirth_schema_value:
  "value_of (snd (dateOfBirth_schema created x)) = Some t \<Longrightarrow> x = JDate (Some t)"
  by (auto simp: dateOfBirth_schema_def z_max_date_def z_check_value z_date_def
      split: jsval.splits option.splits)

subsection \<open>Which drafts the object schema aborts on\<close>

lemma name_aborts: "snd (name_schema v) = INVALID \<longleftrightarrow> (\<forall>s. v \<noteq> JString s)"
  by (cases v) (simp_all add: name_schema_def z_min_length_def z_check_INVALID z_string_def)

lemma age_aborts: "snd (age_schema v) = INVALID \<longleftrightarrow> (\<forall>a. v = JNumber a \<longrightarrow> a = NaN)"
  by (cases v) (simp_all add: age_schema_def z_min_def z_check_INVALID z_number_def)

lemma phone_aborts:
  "snd (phone_schema v) = INVALID \<longleftrightarrow> v \<noteq> JUndefined \<and> (\<forall>s. v \<noteq> JString s)"
  by (cases v)
    (simp_all add: phone_schema_def z_or_def z_optional_def z_regex_def z_check_def
      z_string_def z_literal_def split: outcome.splits)

lemma website_aborts:
  "snd (website_schema v) = INVALID \<longleftrightarrow> v \<noteq> JUndefined \<and> (\<forall>s. v \<noteq> JString s)"
  by (cases v)
    (simp_all add: website_schema_def z_or_def z_optional_def z_refine_def z_min_length_def
      z_toLowerCase_def z_check_def z_string_def z_literal_def split: outcome.splits)

lemma dateOfBirth_aborts:
  "snd (dateOfBirth_schema created v) = INVALID \<longleftrightarrow> (\<forall>t. v \<noteq> JDate (Some t))"
  by (cases v)
    (simp_all add: dateOfBirth_schema_def z_max_date_def z_check_INVALID z_date_def
      split: option.splits)

lemma avatar_aborts: "snd (avatar_schema v) = INVALID \<longleftrightarrow> (\<forall>f. v \<noteq> JFile f)"
  by (cases v)
    (simp_all add: avatar_schema_def z_refine_def z_check_INVALID z_instanceof_File_def)

lemma picture_aborts: "snd (picture_schema v) = INVALID \<longleftrightarrow> (\<forall>f. v \<noteq> JFile f)"
  by (cases v)
    (simp_all add: picture_schema_def z_refine_def z_check_INVALID z_instanceof_File_def)

lemma parse_items_aborts:
  "snd (parse_items picture_schema i xs) = INVALID \<longleftrightarrow> (\<exists>x \<in> set xs. \<forall>f. x \<noteq> JFile f)"
  by (induction xs arbitrary: i)
    (simp_all add: case_prod_beta merge_INVALID_iff picture_aborts)

lemma all_files: "(\<forall>x \<in> set xs. \<exists>f. x = JFile f) \<longleftrightarrow> (\<exists>fs. xs = map JFile fs)"
proof
  assume "\<forall>x \<in> set xs. \<exists>f. x = JFile f"
  then show "\<exists>fs. xs = map JFile fs"
  proof (induction xs)
    case Nil
    then show ?case by simp
  next
    case (Cons x xs)
    then obtain f fs where "x = JFile f" "xs = map JFile fs" by auto
    then have "x # xs = map JFile (f # fs)" by simp
    then show ?case by (rule exI)
  qed
next
  assume "\<exists>fs. xs = map JFile fs"
  then show "\<forall>x \<in> set xs. \<exists>f. x = JFile f" by auto
qed

lemma additionalPictures_aborts:
  "snd (additionalPictures_schema v) = INVALID \<longleftrightarrow>
     v \<noteq> JUndefined \<and> (\<forall>fs. v \<noteq> JArray (map JFile fs))"
proof (cases v)
  case (JArray xs)
  have "snd (additionalPictures_schema v) = INVALID \<longleftrightarrow>
      snd (parse_items picture_schema 0 xs) = INVALID"
    by (simp add: JArray additionalPictures_schema_def z_optional_def z_array_max_def
        case_prod_beta merge_INVALID_iff split: outcome.splits)
  also have "\<dots> \<longleftrightarrow> \<not> (\<forall>x \<in> set xs. \<exists>f. x = JFile f)"
    by (simp add: parse_items_aborts)
  also have "\<dots> \<longleftrightarrow> (\<forall>fs. xs \<noteq> map JFile fs)"
    by (simp add: all_files)
  finally show ?thesis by (simp add: JArray)
qed (simp_all add: additionalPictures_schema_def z_optional_def z_array_max_def)

text \<open>
  The object schema aborts exactly when some key holds a value of the wrong type: the
  checks on the value itself (length, bound, pattern, file type and size) only make the
  result dirty.
\<close>

lemma object_schema_aborts:
  "snd (object_schema created data) \<noteq> INVALID \<longleftrightarrow>
     (\<exists>s. data ''name'' = JString s) \<and>
     (\<exists>a. data ''age'' = JNumber a \<and> a \<noteq> NaN) \<and>
     (data ''phone'' = JUndefined \<or> (\<exists>s. data ''phone'' = JString s)) \<and>
     (data ''website'' = JUndefined \<or> (\<exists>s. data ''website'' = JString s)) \<and>
     (\<exists>t. data ''dateOfBirth'' = JDate (Some t)) \<and>
     (\<exists>f. data ''avatar'' = JFile f) \<and>
     (data ''additionalPictures'' = JUndefined \<or>
      (\<exists>fs. data ''additionalPictures'' = JArray (map JFile fs)))"
  unfolding object_schema_result merge_INVALID_iff
  by (simp add: name_aborts age_aborts phone_aborts website_aborts dateOfBirth_aborts
      avatar_aborts additionalPictures_aborts)

subsection \<open>The example draft\<close>

lemma example_object:
  "object_schema 640000000000 example_draft = ([], OK example_values)"
  by (simp add: object_schema_def example_draft_def example_values_def example_file_def
      schema_defs)

lemma example_object_no_name:
  "object_schema 640000000000 (example_draft(''name'' := JUndefined)) =
     ([\<lparr>code = invalid_type, path = [Key ''name''], message = ''Required''\<rparr>], INVALID)"
  by (simp add: object_schema_def example_draft_def example_file_def schema_defs)

lemma example_object_empty_name:
  "object_schema 640000000000 (example_draft(''name'' := JString [])) =
     ([\<lparr>code = too_small, path = [Key ''name''], message = ''Required''\<rparr>],
      DIRTY (example_values\<lparr>name := []\<rparr>))"
  by (simp add: object_schema_def example_draft_def example_values_def example_file_def
      schema_defs)

lemma example_superRefine:
  "superRefine 640000000000 example_values = []"
  "superRefine 700000000000 example_values =
     [\<lparr>code = custom, path = [Key ''age''], message = ''Age must match date of birth''\<rparr>]"
  "superRefine 640000000000 (example_values\<lparr>name := []\<rparr>) = []"
  by (simp_all add: superRefine_def calculatedAge_div example_values_def age_issue_def)

lemma example_formSchema:
  "formSchema 640000000000 640000000000 example_draft = ([], OK example_values)"
  "formSchema 640000000000 700000000000 example_draft =
     ([\<lparr>code = custom, path = [Key ''age''], message = ''Age must match date of birth''\<rparr>],
      DIRTY example_values)"
  "formSchema 640000000000 now (example_draft(''name'' := JUndefined)) =
     ([\<lparr>code = invalid_type, path = [Key ''name''], message = ''Required''\<rparr>], INVALID)"
  "formSchema 640000000000 640000000000 (example_draft(''name'' := JString [])) =
     ([\<lparr>code = too_small, path = [Key ''name''], message = ''Required''\<rparr>],
      DIRTY (example_values\<lparr>name := []\<rparr>))"
  by (simp_all add: formSchema_def z_superRefine_def example_object example_object_no_name
      example_object_empty_name example_superRefine)

section \<open>The cross-field check\<close>

text \<open>
  Claim C1, as amended. Take a draft whose \<open>age\<close> is a number \<open>a\<close> and whose
  \<open>dateOfBirth\<close> is a valid date with time value \<open>t\<close>, with \<open>t\<close> and the time of
  validation in the range of \<^verbatim>\<open>Date\<close> and less than \<open>2 ^ 53\<close> milliseconds apart, so
  that the double arithmetic of the source is exact. When the object schema does not
  abort (no key holds a value of the wrong type): if \<open>a\<close> differs from the floor of the
  years (of 365 days) between \<open>t\<close> and the time of validation, validation fails and the
  issue with the message "Age must match date of birth" is reported on \<open>age\<close>; if \<open>a\<close>
  equals that floor, the cross-field check adds no issue. When the object schema aborts,
  the cross-field check does not run: the result is the one of the object schema.
\<close>

theorem cross_field_check:
  assumes age: "data ''age'' = JNumber a"
      and dob: "data ''dateOfBirth'' = JDate (Some t)"
      and now_range: "\<bar>now\<bar> \<le> 8640000000000000"
      and dob_range: "\<bar>t\<bar> \<le> 8640000000000000"
      and exact: "\<bar>now - t\<bar> < 2 ^ 53"
  shows "(snd (object_schema created data) \<noteq> INVALID \<longrightarrow>
            (a \<noteq> Fin (of_int ((now - t) div (1000 * 60 * 60 * 24 * 365))) \<longrightarrow>
               \<not> success (formSchema created now data) \<and>
               \<lparr>code = custom, path = [Key ''age''], message = ''Age must match date of birth''\<rparr>
                 \<in> set (fst (formSchema created now data))) \<and>
            (a = Fin (of_int ((now - t) div (1000 * 60 * 60 * 24 * 365))) \<longrightarrow>
               fst (formSchema created now data) = fst (object_schema created data))) \<and>
         (snd (object_schema created data) = INVALID \<longrightarrow>
            formSchema created now data = object_schema created data)"
proof (cases "value_of (snd (object_schema created data))")
  case None
  then have "snd (object_schema created data) = INVALID"
    by (simp add: value_of_None)
  then show ?thesis
    by (simp add: formSchema_def z_superRefine_INVALID)
next
  case (Some v)
  from object_schema_value [OF Some] age dob
  have v: "age v = a" "a \<noteq> NaN" "dateOfBirth v = t"
    using age_schema_value [of "data ''age''" "age v"]
      dateOfBirth_schema_value [of created "data ''dateOfBirth''" "dateOfBirth v"]
    by auto
  have cb: "superRefine now v =
      (if a \<noteq> Fin (of_int ((now - t) div (1000 * 60 * 60 * 24 * 365)))
       then [\<lparr>code = custom, path = [Key ''age''], message = ''Age must match date of birth''\<rparr>]
       else [])"
    using v by (simp add: superRefine_def calculatedAge_div strict_neq_Fin age_issue_def)
  have iss: "fst (formSchema created now data) =
      fst (object_schema created data) @ superRefine now v"
    by (simp add: formSchema_def z_superRefine_issues Some)
  have succ: "success (formSchema created now data) \<Longrightarrow> superRefine now v = []"
    using Some by (auto simp: formSchema_def z_superRefine_success)
  from Some have "snd (object_schema created data) \<noteq> INVALID"
    by auto
  then show ?thesis
    using cb iss succ by auto
qed

text \<open>
  The three cases on the example draft (age 20, born at time 0), whose schema was built
  at time 640000000000: validated at 700000000000 the floor is 22 and the issue is
  reported; validated at 640000000000 the floor is 20 and nothing is added; without a
  name the object schema aborts and the result is its own.
\<close>

theorem cross_field_check_witness:
  "example_draft ''age'' = JNumber (Fin 20) \<and>
   example_draft ''dateOfBirth'' = JDate (Some 0) \<and>
   \<bar>700000000000::int\<bar> \<le> 8640000000000000 \<and>
   \<bar>640000000000::int\<bar> \<le> 8640000000000000 \<and>
   \<bar>0::int\<bar> \<le> 8640000000000000 \<and>
   \<bar>700000000000 - 0::int\<bar> < 2 ^ 53 \<and>
   \<bar>640000000000 - 0::int\<bar> < 2 ^ 53 \<and>
   snd (object_schema 640000000000 example_draft) \<noteq> INVALID \<and>
   Fin 20 \<noteq> Fin (of_int ((700000000000 - 0) div (1000 * 60 * 60 * 24 * 365))) \<and>
   \<not> success (formSchema 640000000000 700000000000 example_draft) \<and>
   \<lparr>code = custom, path = [Key ''age''], message = ''Age must match date of birth''\<rparr>
     \<in> set (fst (formSchema 640000000000 700000000000 example_draft)) \<and>
   Fin 20 = Fin (of_int ((640000000000 - 0) div (1000 * 60 * 60 * 24 * 365))) \<and>
   fst (formSchema 640000000000 640000000000 example_draft) =
     fst (object_schema 640000000000 example_draft) \<and>
   snd (object_schema 640000000000 (example_draft(''name'' := JUndefined))) = INVALID \<and>
   formSchema 640000000000 700000000000 (example_draft(''name'' := JUndefined)) =
     object_schema 640000000000 (example_draft(''name'' := JUndefined))"
  using
    cross_field_check [where data = example_draft and a = "Fin 20" and t = 0
      and created = 640000000000 and now = 700000000000]
    cross_field_check [where data = example_draft and a = "Fin 20" and t = 0
      and created = 640000000000 and now = 640000000000]
    cross_field_check [where data = "example_draft(''name'' := JUndefined)" and a = "Fin 20"
      and t = 0 and created = 640000000000 and now = 700000000000]
  by (simp add: example_object example_object_no_name) (simp add: example_draft_def)

text \<open>
  Claim C1 as stated fails on a draft in which \<open>age\<close> and \<open>dateOfBirth\<close> are both set
  and disagree (age 20, floor 22) but \<open>name\<close> is missing: the object schema aborts, the
  callback of \<^verbatim>\<open>superRefine\<close> is not called, and the only issue is the one on \<open>name\<close>.
\<close>

theorem cross_field_check_counterexample:
  "(example_draft(''name'' := JUndefined)) ''age'' = JNumber (Fin 20) \<and>
   (example_draft(''name'' := JUndefined)) ''dateOfBirth'' = JDate (Some 0) \<and>
   Fin 20 \<noteq> Fin (of_int ((700000000000 - 0) div (1000 * 60 * 60 * 24 * 365))) \<and>
   formSchema 640000000000 700000000000 (example_draft(''name'' := JUndefined)) =
     ([\<lparr>code = invalid_type, path = [Key ''name''], message = ''Required''\<rparr>], INVALID) \<and>
   \<lparr>code = custom, path = [Key ''age''], message = ''Age must match date of birth''\<rparr>
     \<notin> set (fst (formSchema 640000000000 700000000000 (example_draft(''name'' := JUndefined))))"
  by (simp add: example_formSchema) (simp add: example_draft_def)

section \<open>The age field\<close>

text \<open>
  Claim C2, as amended. The rule of the \<open>age\<close> field passes exactly the numbers (not
  \<open>NaN\<close>) that are not below 10, integer or not. That the age is an integer is enforced
  by the cross-field check only: every draft that passes validation as a whole has an
  integer age of at least 10.
\<close>

theorem age_rule:
  "(success (age_schema v) \<longleftrightarrow>
      (\<exists>a. v = JNumber a \<and> a \<noteq> NaN \<and> \<not> number_less a (Fin 10))) \<and>
   (success (formSchema created now data) \<longrightarrow>
      (\<exists>a. data ''age'' = JNumber a \<and> isInteger a \<and> \<not> number_less a (Fin 10)))"
proof
  show "success (age_schema v) \<longleftrightarrow>
      (\<exists>a. v = JNumber a \<and> a \<noteq> NaN \<and> \<not> number_less a (Fin 10))"
    by (cases v) (auto simp: age_schema_def z_min_def z_check_def z_number_def)
next
  show "success (formSchema created now data) \<longrightarrow>
      (\<exists>a. data ''age'' = JNumber a \<and> isInteger a \<and> \<not> number_less a (Fin 10))"
  proof
    assume "success (formSchema created now data)"
    then obtain x where x: "snd (object_schema created data) = OK x" "superRefine now x = []"
      by (auto simp: formSchema_def z_superRefine_success)
    from x(1) obtain a where a: "snd (age_schema (data ''age'')) = OK a" "age x = a"
      unfolding object_schema_result merge_OK_iff by auto
    from a(1) have d: "data ''age'' = JNumber a" "a \<noteq> NaN" "\<not> number_less a (Fin 10)"
      by (cases "data ''age''"; auto simp: age_schema_def z_min_def z_check_def z_number_def
          split: if_splits)+
    from x(2) a(2) d(2) have "a = calculatedAge now (dateOfBirth x)"
      by (simp add: superRefine_def calculatedAge_div strict_neq_Fin split: if_splits)
    then have "isInteger a"
      by (simp add: calculatedAge_div)
    with d show "\<exists>a. data ''age'' = JNumber a \<and> isInteger a \<and> \<not> number_less a (Fin 10)"
      by blast
  qed
qed

text \<open>The age 10 passes the rule of the field, and the example draft, which passes
  validation as a whole, has the integer age 20.\<close>

theorem age_rule_witness:
  "success (age_schema (JNumber (Fin 10))) \<and>
   success (formSchema 640000000000 640000000000 example_draft) \<and>
   example_draft ''age'' = JNumber (Fin 20) \<and> isInteger (Fin 20) \<and>
   \<not> number_less (Fin 20) (Fin 10)"
  using age_rule [of "JNumber (Fin 10)" 640000000000 640000000000 example_draft]
  by (simp add: example_formSchema) (simp add: example_draft_def)

text \<open>
  Claim C2 as stated fails: the age 10.5 is not an integer and passes the rule of the
  \<open>age\<close> field; and in a draft with that age and no name, validation reports the missing
  name and nothing on \<open>age\<close>.
\<close>

theorem age_rule_counterexample:
  "\<not> isInteger (Fin (21 / 2)) \<and>
   age_schema (JNumber (Fin (21 / 2))) = ([], OK (Fin (21 / 2))) \<and>
   formSchema 640000000000 640000000000
     (example_draft(''age'' := JNumber (Fin (21 / 2)), ''name'' := JUndefined)) =
     ([\<lparr>code = invalid_type, path = [Key ''name''], message = ''Required''\<rparr>], INVALID)"
proof -
  have "\<lfloor>(21::rat) / 2\<rfloor> = 10"
    by (rule floor_unique) simp_all
  then have "\<not> isInteger (Fin (21 / 2))"
    by simp
  then show ?thesis
    by (simp add: formSchema_def z_superRefine_def object_schema_def example_draft_def
        example_file_def schema_defs)
qed

section \<open>The date of birth\<close>

text \<open>
  What the rule of the field computes: it passes exactly the valid dates that are at
  least 10 years (of 365 days) before the time at which the schema was built, and a
  valid date later than that gets the issue "Must be at least 10 years old".
\<close>

lemma dateOfBirth_built_bound:
  "(success (dateOfBirth_schema created v) \<longleftrightarrow>
      (\<exists>t. v = JDate (Some t) \<and> t \<le> created - 10 * 365 * 24 * 60 * 60 * 1000)) \<and>
   (\<forall>t. v = JDate (Some t) \<and> created - 10 * 365 * 24 * 60 * 60 * 1000 < t \<longrightarrow>
      dateOfBirth_schema created v =
        ([\<lparr>code = too_big, path = [], message = ''Must be at least 10 years old''\<rparr>],
         DIRTY t))"
  by (cases v)
    (auto simp: dateOfBirth_schema_def z_max_date_def z_check_def z_date_def mk_issue_def
      split: option.splits)

text \<open>
  Claim C3 says that the \<open>dateOfBirth\<close> field passes exactly when the date is at least
  10 years before the current time. The code does not do this when a draft is validated
  later than the module was loaded: line 24 reads the clock once, when the schema is
  built, while the cross-field check of line 54 reads it at validation. Here the schema
  is built one millisecond before time 0 is ten years old, and the draft (age 10, born
  at time 0) is validated a day later: the date of birth is then more than ten years
  before the current time and the age 10 matches it, yet validation reports "Must be at
  least 10 years old" on \<open>dateOfBirth\<close>.
\<close>

theorem dateOfBirth_rule_counterexample:
  "(0::int) \<le> 315446399999 - 10 * 365 * 24 * 60 * 60 * 1000 \<and>
   formSchema 315359999999 315446399999 (example_draft(''age'' := JNumber (Fin 10))) =
     ([\<lparr>code = too_big, path = [Key ''dateOfBirth''],
        message = ''Must be at least 10 years old''\<rparr>],
      DIRTY (example_values\<lparr>age := Fin 10\<rparr>))"
  by (simp add: formSchema_def z_superRefine_def object_schema_def example_draft_def
      example_values_def example_file_def schema_defs superRefine_def calculatedAge_div
      age_issue_def)

section \<open>The avatar and the additional pictures\<close>

text \<open>
  Claim C4. For every avatar file: when its type does not start with "image/",
  validation fails and the first issue is "Invalid file type", whatever the size; an
  image file of more than 5MB fails with "Image size must be less than 5MB" alone; an
  image file of at most 5MB passes.
\<close>

theorem avatar_rules:
  "(\<not> startsWith (file_type f) ''image/'' \<longrightarrow>
      \<not> success (avatar_schema (JFile f)) \<and>
      (\<exists>rest. fst (avatar_schema (JFile f)) =
         \<lparr>code = custom, path = [], message = ''Invalid file type''\<rparr> # rest)) \<and>
   (startsWith (file_type f) ''image/'' \<and> 5 * 1024 * 1024 < file_size f \<longrightarrow>
      avatar_schema (JFile f) =
        ([\<lparr>code = custom, path = [], message = ''Image size must be less than 5MB''\<rparr>],
         DIRTY f)) \<and>
   (startsWith (file_type f) ''image/'' \<and> file_size f \<le> 5 * 1024 * 1024 \<longrightarrow>
      avatar_schema (JFile f) = ([], OK f))"
  by (simp add: avatar_schema_def z_refine_def z_check_def z_instanceof_File_def mk_issue_def)

text \<open>A PDF of 6000000 bytes, a PNG of 6000000 bytes and the PNG of 100 bytes.\<close>

theorem avatar_rules_witness:
  "\<not> startsWith ''application/pdf'' ''image/'' \<and>
   fst (avatar_schema
          (JFile \<lparr>file_name = ''cv.pdf'', file_type = ''application/pdf'',
                  file_size = 6000000\<rparr>)) =
     [\<lparr>code = custom, path = [], message = ''Invalid file type''\<rparr>,
      \<lparr>code = custom, path = [], message = ''Image size must be less than 5MB''\<rparr>] \<and>
   startsWith ''image/png'' ''image/'' \<and> 5 * 1024 * 1024 < (6000000::nat) \<and>
   \<not> success (avatar_schema (JFile (example_file\<lparr>file_size := 6000000\<rparr>))) \<and>
   file_size example_file \<le> 5 * 1024 * 1024 \<and>
   avatar_schema (JFile example_file) = ([], OK example_file)"
  using avatar_rules [of "\<lparr>file_name = ''cv.pdf'', file_type = ''application/pdf'',
                           file_size = 6000000\<rparr>"]
    avatar_rules [of "example_file\<lparr>file_size := 6000000\<rparr>"]
    avatar_rules [of example_file]
  by (simp add: example_file_def)
    (simp add: avatar_schema_def z_refine_def z_check_def z_instanceof_File_def mk_issue_def)

lemma picture_schema_valid:
  "startsWith (file_type f) ''image/'' \<Longrightarrow> file_size f \<le> 50 * 1024 * 1024 \<Longrightarrow>
   picture_schema (JFile f) = ([], OK f)"
  by (simp add: picture_schema_def z_refine_def z_check_def z_instanceof_File_def)

lemma parse_items_valid:
  "\<forall>f \<in> set fs. startsWith (file_type f) ''image/'' \<and> file_size f \<le> 50 * 1024 * 1024 \<Longrightarrow>
   parse_items picture_schema i (map JFile fs) = ([], OK fs)"
  by (induction fs arbitrary: i) (simp_all add: picture_schema_valid under_def)

text \<open>
  Claim C5. For every list of image files of at most 50MB each given as
  \<open>additionalPictures\<close>: a list of 6 files fails with the one issue "Maximum 5 images
  allowed"; a list of 5 files or fewer passes.
\<close>

theorem additionalPictures_count:
  assumes "\<forall>f \<in> set fs. startsWith (file_type f) ''image/'' \<and> file_size f \<le> 50 * 1024 * 1024"
  shows "(length fs = 6 \<longrightarrow>
            additionalPictures_schema (JArray (map JFile fs)) =
              ([\<lparr>code = too_big, path = [], message = ''Maximum 5 images allowed''\<rparr>],
               DIRTY (Some fs))) \<and>
         (length fs \<le> 5 \<longrightarrow>
            additionalPictures_schema (JArray (map JFile fs)) = ([], OK (Some fs)))"
  using parse_items_valid [OF assms, of 0]
  by (simp add: additionalPictures_schema_def z_optional_def z_array_max_def mk_issue_def)

text \<open>Six copies of the example image, and two.\<close>

theorem additionalPictures_count_witness:
  "startsWith (file_type example_file) ''image/'' \<and>
   file_size example_file \<le> 50 * 1024 * 1024 \<and>
   length (replicate 6 example_file) = 6 \<and>
   additionalPictures_schema (JArray (map JFile (replicate 6 example_file))) =
     ([\<lparr>code = too_big, path = [], message = ''Maximum 5 images allowed''\<rparr>],
      DIRTY (Some (replicate 6 example_file))) \<and>
   length [example_file, example_file] \<le> 5 \<and>
   additionalPictures_schema (JArray (map JFile [example_file, example_file])) =
     ([], OK (Some [example_file, example_file]))"
  using additionalPictures_count [of "replicate 6 example_file"]
    additionalPictures_count [of "[example_file, example_file]"]
  by (simp add: example_file_def)

section \<open>The website and the name\<close>

text \<open>
  Claim C6. For the \<open>website\<close> field: the empty string passes, through the literal
  option of the union; "ab" fails, first for being shorter than 5 characters; "abcde"
  fails for having no dot; "abc.de" passes.
\<close>

theorem website_examples:
  "website_schema (JString []) = ([], OK (Inr [])) \<and>
   website_schema (JString ''ab'') =
     ([\<lparr>code = too_small, path = [], message = ''Must be a minimum of 5 characters''\<rparr>,
       \<lparr>code = custom, path = [], message = ''Invalid''\<rparr>],
      DIRTY (Inl (Some ''ab''))) \<and>
   website_schema (JString ''abcde'') =
     ([\<lparr>code = custom, path = [], message = ''Invalid''\<rparr>], DIRTY (Inl (Some ''abcde''))) \<and>
   website_schema (JString ''abc.de'') = ([], OK (Inl (Some ''abc.de'')))"
  by (simp add: website_schema_def z_or_def z_optional_def z_refine_def z_min_length_def
      z_check_def z_toLowerCase_def z_string_def z_literal_def mk_issue_def indexOf_def
      toLowerCase_def lower_char_def)

text \<open>
  Claim C7. For every draft whose \<open>name\<close> is missing or is the empty string, validation
  fails and its first issue is on \<open>name\<close>, with the message "Required".
\<close>

theorem name_required:
  assumes "data ''name'' = JUndefined \<or> data ''name'' = JString []"
  shows "\<not> success (formSchema created now data) \<and>
         (\<exists>c rest. fst (formSchema created now data) =
            \<lparr>code = c, path = [Key ''name''], message = ''Required''\<rparr> # rest)"
proof -
  from assms have n:
    "(\<exists>c. fst (name_schema (data ''name'')) = [\<lparr>code = c, path = [], message = ''Required''\<rparr>])
      \<and> (\<forall>x. snd (name_schema (data ''name'')) \<noteq> OK x)"
    by (auto simp: name_schema_def z_min_length_def z_check_def z_string_def
        invalid_type_issue_def mk_issue_def)
  then have "\<forall>x. snd (object_schema created data) \<noteq> OK x"
    unfolding object_schema_result merge_OK_iff by blast
  then have 1: "\<not> success (formSchema created now data)"
    by (simp add: formSchema_def z_superRefine_success)
  from n obtain c where
    "fst (name_schema (data ''name'')) = [\<lparr>code = c, path = [], message = ''Required''\<rparr>]"
    by blast
  then have "\<exists>rest. fst (formSchema created now data) =
            \<lparr>code = c, path = [Key ''name''], message = ''Required''\<rparr> # rest"
    by (simp add: formSchema_def z_superRefine_issues object_schema_issues)
  with 1 show ?thesis by blast
qed

text \<open>The example draft without a name, and with the empty name.\<close>

theorem name_required_witness:
  "(example_draft(''name'' := JUndefined)) ''name'' = JUndefined \<and>
   \<not> success (formSchema 640000000000 640000000000 (example_draft(''name'' := JUndefined))) \<and>
   (example_draft(''name'' := JString [])) ''name'' = JString [] \<and>
   fst (formSchema 640000000000 640000000000 (example_draft(''name'' := JString []))) =
     [\<lparr>code = too_small, path = [Key ''name''], message = ''Required''\<rparr>]"
  using name_required [of "example_draft(''name'' := JUndefined)" 640000000000 640000000000]
    name_required [of "example_draft(''name'' := JString [])" 640000000000 640000000000]
  by (simp add: example_formSchema)

section \<open>The handlers of the file inputs\<close>

text \<open>
  Claim C8. When the first selected file of the avatar input has a type that does not
  start with "image/", the handler returns with the form value of \<open>avatar\<close> set to that
  file, so that validating it reports "Invalid file type", and with the avatar preview
  and the table of object URLs as they were.
\<close>

theorem avatar_non_image_keeps_preview:
  assumes "\<not> startsWith (file_type f) ''image/''"
  shows "\<exists>s'. avatar_onChange (Some (f # rest)) s = Returned s' \<and>
           formValues s' ''avatar'' = JFile f \<and>
           avatarPreview s' = avatarPreview s \<and>
           objectURLs s' = objectURLs s \<and>
           (\<exists>more. fst (avatar_schema (formValues s' ''avatar'')) =
              \<lparr>code = custom, path = [], message = ''Invalid file type''\<rparr> # more)"
  using assms
  by (simp add: avatar_onChange_def onChange_def avatar_schema_def z_refine_def z_check_def
      z_instanceof_File_def mk_issue_def)

text \<open>Selecting a PDF in the example state, whose preview is the object URL 0.\<close>

theorem avatar_non_image_keeps_preview_witness:
  "\<not> startsWith ''application/pdf'' ''image/'' \<and>
   avatar_onChange
     (Some [\<lparr>file_name = ''cv.pdf'', file_type = ''application/pdf'', file_size = 2000\<rparr>])
     example_state =
   Returned
     (example_state
        \<lparr>formValues := example_draft
           (''avatar'' :=
              JFile \<lparr>file_name = ''cv.pdf'', file_type = ''application/pdf'',
                      file_size = 2000\<rparr>)\<rparr>) \<and>
   avatarPreview example_state = Some (Blob 0)"
  using avatar_non_image_keeps_preview
    [of "\<lparr>file_name = ''cv.pdf'', file_type = ''application/pdf'', file_size = 2000\<rparr>"
      "[]" example_state]
  by (simp add: avatar_onChange_def onChange_def example_state_def)

text \<open>
  Claim C9 says that the avatar handler completes without error on every files list
  that is not \<^verbatim>\<open>null\<close>, the empty one included. On the empty list the code does not:
  \<^verbatim>\<open>files[0]\<close> is \<^verbatim>\<open>undefined\<close>, it is handed to \<^verbatim>\<open>onChange\<close>, and reading its \<^verbatim>\<open>type\<close>
  throws a \<^verbatim>\<open>TypeError\<close>, one line before the code tests \<^verbatim>\<open>file\<close> for being defined.
\<close>

theorem avatar_empty_selection_throws:
  "avatar_onChange (Some []) s =
     Threw TypeError (s\<lparr>formValues := (formValues s)(''avatar'' := JUndefined)\<rparr>)"
  by (simp add: avatar_onChange_def onChange_def)

text \<open>
  Claim C10. When the files list of the event is \<^verbatim>\<open>null\<close>, the handler of the avatar
  input and the handler of the additional pictures both return the state unchanged:
  neither the form values nor a preview state is touched.
\<close>

theorem null_files_no_change:
  "avatar_onChange None s = Returned s \<and> additionalPictures_onChange None s = Returned s"
  by (simp add: avatar_onChange_def additionalPictures_onChange_def)

end
